theory Spec2Isabelle
  imports Main
begin

section \<open>Region validation and administrator permissions (src/lib/regionValidation.ts)\<close>

text \<open>
  A JavaScript string is modelled as a \<open>string\<close>. The Spanish letters of the messages
  are written by their code unit: \<open>CHR 0xE1\<close> is a-acute, \<open>CHR 0xED\<close> i-acute,
  \<open>CHR 0xF3\<close> o-acute and \<open>CHR 0xFA\<close> u-acute.
\<close>

subsection \<open>The region registry\<close>

record RegionConfig =
  code :: string
  name :: string
  enabled :: bool
  adminOnly :: bool

text \<open>
  \<open>REGION_CONFIG\<close> is an object literal. Its own properties are kept in the order in
  which the literal lists them, which is the order \<open>Object.values\<close> visits them in.
\<close>

definition REGION_CONFIG :: "(string \<times> RegionConfig) list" where
  "REGION_CONFIG =
    [(''CL'', \<lparr>code = ''CL'', name = ''Chile'', enabled = True, adminOnly = False\<rparr>),
     (''AR'', \<lparr>code = ''AR'', name = ''Argentina'', enabled = False, adminOnly = True\<rparr>),
     (''PE'', \<lparr>code = ''PE'', name = ''Per'' @ [CHR 0xFA], enabled = False, adminOnly = True\<rparr>),
     (''BO'', \<lparr>code = ''BO'', name = ''Bolivia'', enabled = False, adminOnly = True\<rparr>),
     (''CO'', \<lparr>code = ''CO'', name = ''Colombia'', enabled = False, adminOnly = True\<rparr>)]"

definition Object_values :: "(string \<times> 'v) list \<Rightarrow> 'v list" where
  "Object_values obj = map snd obj"

text \<open>
  The expression \<open>REGION_CONFIG[key]\<close> is a property read on an ordinary object: an own
  property wins, otherwise the read goes on to \<open>Object.prototype\<close>, and only a name
  found in neither place gives \<open>undefined\<close>. \<open>Object_prototype\<close> lists the properties
  every such object inherits in a browser, each with the \<open>name\<close> property of its value:
  the inherited values are functions, whose \<open>name\<close> is the function's name, except for
  \<open>__proto__\<close>, whose value is the prototype object itself and has no \<open>name\<close>. All
  of these values are truthy.
\<close>

definition Object_prototype :: "(string \<times> string option) list" where
  "Object_prototype =
    [(''constructor'', Some ''Object''),
     (''hasOwnProperty'', Some ''hasOwnProperty''),
     (''isPrototypeOf'', Some ''isPrototypeOf''),
     (''propertyIsEnumerable'', Some ''propertyIsEnumerable''),
     (''toLocaleString'', Some ''toLocaleString''),
     (''toString'', Some ''toString''),
     (''valueOf'', Some ''valueOf''),
     (''__defineGetter__'', Some ''__defineGetter__''),
     (''__defineSetter__'', Some ''__defineSetter__''),
     (''__lookupGetter__'', Some ''__lookupGetter__''),
     (''__lookupSetter__'', Some ''__lookupSetter__''),
     (''__proto__'', None)]"

datatype property = Own RegionConfig | Inherited "string option" | Undefined

definition REGION_CONFIG_get :: "string \<Rightarrow> property" where
  "REGION_CONFIG_get key =
    (case map_of REGION_CONFIG key of
       Some region \<Rightarrow> Own region
     | None \<Rightarrow> (case map_of Object_prototype key of
                  Some n \<Rightarrow> Inherited n
                | None \<Rightarrow> Undefined))"

text \<open>A code is in the registry when it is one of the registry's own keys.\<close>

definition in_registry :: "string \<Rightarrow> bool" where
  "in_registry key = (map_of REGION_CONFIG key \<noteq> None)"

text \<open>\<open>REGION_CONFIG[c]?.name || c\<close>: an empty or missing name falls back to the code.\<close>

definition region_name_or_code :: "string \<Rightarrow> string" where
  "region_name_or_code c =
    (case REGION_CONFIG_get c of
       Own region \<Rightarrow> (if name region \<noteq> [] then name region else c)
     | Inherited (Some n) \<Rightarrow> (if n \<noteq> [] then n else c)
     | Inherited None \<Rightarrow> c
     | Undefined \<Rightarrow> c)"

subsection \<open>The persisted administrator configuration\<close>

record AdminConfig =
  isAdmin :: bool
  enabledRegions :: "string list"

text \<open>
  What \<open>JSON.parse\<close> returns, as far as \<open>getAdminConfig\<close> looks at it. The model follows
  the declared interface \<open>AdminConfig\<close>: a parsed object carries an \<open>isAdmin\<close> property
  that is missing or a boolean and an \<open>enabledRegions\<close> property that is missing or an
  array of strings. \<open>JNull\<close> is \<open>null\<close>, on which a property read throws a
  \<open>TypeError\<close>; \<open>JOther\<close> is a number, a string, a boolean or an array, on which both
  property reads give \<open>undefined\<close>.
\<close>

datatype json = JNull | JOther | JObject "bool option" "string list option"

text \<open>
  The text held under the key \<open>transportes_edimburgo_admin\<close>, identified by what
  \<open>JSON.parse\<close> does with it: \<open>NotJson s\<close> is a text \<open>s\<close> that \<open>JSON.parse\<close> rejects
  with a \<open>SyntaxError\<close> (the empty text is one), \<open>Json v\<close> is a text that parses to
  \<open>v\<close>. The slot itself is a \<open>stored option\<close>, \<open>None\<close> when \<open>getItem\<close> returns \<open>null\<close>.
\<close>

datatype stored = NotJson string | Json json

text \<open>A string is truthy unless it is empty; a JSON text is never empty.\<close>

fun truthy :: "stored \<Rightarrow> bool" where
  "truthy (NotJson s) = (s \<noteq> [])"
| "truthy (Json v) = True"

datatype js_error = SyntaxError | TypeError

text \<open>The body of the \<open>try\<close> block of \<open>getAdminConfig\<close>.\<close>

fun parse_admin :: "stored \<Rightarrow> js_error + AdminConfig" where
  "parse_admin (NotJson s) = Inl SyntaxError"
| "parse_admin (Json JNull) = Inl TypeError"
| "parse_admin (Json JOther) = Inr \<lparr>isAdmin = False, enabledRegions = []\<rparr>"
| "parse_admin (Json (JObject a r)) =
     Inr \<lparr>isAdmin = (case a of Some b \<Rightarrow> b | None \<Rightarrow> False),
          enabledRegions = (case r of Some codes \<Rightarrow> codes | None \<Rightarrow> [])\<rparr>"

text \<open>
  \<open>getAdminConfig\<close> reads the environment variable \<open>VITE_ADMIN_ENABLED\<close> (absent or a
  string) and the storage slot.
\<close>

definition getAdminConfig :: "string option \<Rightarrow> stored option \<Rightarrow> AdminConfig" where
  "getAdminConfig vite_admin_enabled slot =
    (case slot of
       Some adminFromStorage \<Rightarrow>
         if truthy adminFromStorage then
           (case parse_admin adminFromStorage of
              Inr config \<Rightarrow> config
            | Inl e \<Rightarrow> \<lparr>isAdmin = False, enabledRegions = []\<rparr>)
         else \<lparr>isAdmin = (vite_admin_enabled = Some ''true''), enabledRegions = []\<rparr>
     | None \<Rightarrow> \<lparr>isAdmin = (vite_admin_enabled = Some ''true''), enabledRegions = []\<rparr>)"

subsection \<open>The enabled regions\<close>

text \<open>\<open>if (!enabled.includes(code)) enabled.push(code)\<close>\<close>

definition push_new :: "string list \<Rightarrow> string \<Rightarrow> string list" where
  "push_new enabled_codes c = (if c \<in> set enabled_codes then enabled_codes else enabled_codes @ [c])"

text \<open>The first loop over the registry: the regions enabled by default.\<close>

definition default_enabled :: "string list" where
  "default_enabled =
    fold (\<lambda>region acc. if enabled region \<and> \<not> adminOnly region then acc @ [code region] else acc)
      (Object_values REGION_CONFIG) []"

text \<open>
  \<open>getEnabledRegions\<close>, as a function of the configuration that its first line obtains
  from \<open>getAdminConfig\<close>.
\<close>

definition getEnabledRegions :: "AdminConfig \<Rightarrow> string list" where
  "getEnabledRegions adminConfig =
    (if isAdmin adminConfig then
       fold (\<lambda>region acc.
               if adminOnly region \<and> code region \<in> set (enabledRegions adminConfig)
               then push_new acc (code region) else acc)
         (Object_values REGION_CONFIG)
         (fold (\<lambda>c acc. push_new acc c) (enabledRegions adminConfig) default_enabled)
     else default_enabled)"

subsection \<open>The geocoding service\<close>

record GeocoderAddressComponent =
  long_name :: string
  short_name :: string
  types :: "string list"

record GeocoderResult =
  address_components :: "GeocoderAddressComponent list"

datatype GeocoderStatus =
  OK | ZERO_RESULTS | OVER_QUERY_LIMIT | REQUEST_DENIED | INVALID_REQUEST | UNKNOWN_ERROR | ERROR

text \<open>
  \<open>geocode\<close> calls its callback once, with the results (an array or \<open>null\<close>) and a
  status; a geocoder is the function from the address to that pair. \<open>window.google?.maps\<close>
  is a \<open>geocoder option\<close>, \<open>None\<close> while the mapping engine is not loaded.
\<close>

type_synonym geocoder_reply = "GeocoderResult list option \<times> GeocoderStatus"
type_synonym geocoder = "string \<Rightarrow> geocoder_reply"

text \<open>\<open>status === OK && results && results[0]\<close>\<close>

fun first_result :: "geocoder_reply \<Rightarrow> GeocoderResult option" where
  "first_result (Some (r # rs), status) = (if status = OK then Some r else None)"
| "first_result (Some [], status) = None"
| "first_result (None, status) = None"

text \<open>The first address component of the first result that is tagged as a country.\<close>

definition country_component :: "geocoder_reply \<Rightarrow> GeocoderAddressComponent option" where
  "country_component reply =
    (case first_result reply of
       None \<Rightarrow> None
     | Some r \<Rightarrow> find (\<lambda>c. ''country'' \<in> set (types c)) (address_components r))"

subsection \<open>Validating an address and a route\<close>

record AddressValidation =
  valid :: bool
  countryCode :: "string option"
  error :: "string option"

record RouteValidation =
  valid :: bool
  errors :: "string list"

text \<open>\<open>Array.prototype.join\<close> on an array of strings.\<close>

fun join :: "string \<Rightarrow> string list \<Rightarrow> string" where
  "join sep [] = []"
| "join sep [x] = x"
| "join sep (x # y # ys) = x @ sep @ join sep (y # ys)"

definition enabled_names :: "string list \<Rightarrow> string" where
  "enabled_names enabledCodes = join '', '' (map region_name_or_code enabledCodes)"

definition msg_not_loaded :: string where
  "msg_not_loaded = ''Google Maps no est'' @ [CHR 0xE1] @ '' cargado''"

definition msg_no_country :: string where
  "msg_no_country =
    ''No se pudo determinar el pa'' @ [CHR 0xED] @ ''s de la direcci'' @ [CHR 0xF3] @ ''n''"

definition msg_not_validated :: string where
  "msg_not_validated = ''No se pudo validar la direcci'' @ [CHR 0xF3] @ ''n''"

definition msg_outside :: "string list \<Rightarrow> string \<Rightarrow> string" where
  "msg_outside enabledCodes countryName =
    ''Las rutas fuera de '' @ enabled_names enabledCodes @ '' no est'' @ [CHR 0xE1]
      @ ''n permitidas. Contacta a un administrador para habilitar '' @ countryName @ ''.''"

definition msg_invalid_address :: string where
  "msg_invalid_address = ''Direcci'' @ [CHR 0xF3] @ ''n no v'' @ [CHR 0xE1] @ ''lida''"

text \<open>
  \<open>validateAddressRegion\<close>: the promise resolves with the value computed in the
  geocoder's callback. The enabled regions are read from the configuration in storage.
\<close>

definition validateAddressRegion ::
  "geocoder option \<Rightarrow> string option \<Rightarrow> stored option \<Rightarrow> string \<Rightarrow> AddressValidation" where
  "validateAddressRegion maps vite_admin_enabled slot address =
    (case maps of
       None \<Rightarrow> \<lparr>AddressValidation.valid = False, countryCode = None, error = Some msg_not_loaded\<rparr>
     | Some geocode \<Rightarrow>
        (let enabledCodes = getEnabledRegions (getAdminConfig vite_admin_enabled slot) in
         case first_result (geocode address) of
           None \<Rightarrow> \<lparr>AddressValidation.valid = False, countryCode = None, error = Some msg_not_validated\<rparr>
         | Some r \<Rightarrow>
            (case find (\<lambda>c. ''country'' \<in> set (types c)) (address_components r) of
               None \<Rightarrow> \<lparr>AddressValidation.valid = False, countryCode = None, error = Some msg_no_country\<rparr>
             | Some component \<Rightarrow>
                 if short_name component = [] then
                   \<lparr>AddressValidation.valid = False, countryCode = None, error = Some msg_no_country\<rparr>
                 else if short_name component \<in> set enabledCodes then
                   \<lparr>AddressValidation.valid = True, countryCode = Some (short_name component), error = None\<rparr>
                 else
                   \<lparr>AddressValidation.valid = False, countryCode = Some (short_name component),
                    error = Some (msg_outside enabledCodes
                      (if long_name component \<noteq> [] then long_name component
                       else short_name component))\<rparr>)))"

text \<open>\<open>validation.error || 'Direcci\'on no v\'alida'\<close>\<close>

definition error_or_default :: "string option \<Rightarrow> string" where
  "error_or_default e = (case e of None \<Rightarrow> msg_invalid_address
     | Some m \<Rightarrow> if m \<noteq> [] then m else msg_invalid_address)"

text \<open>A country code is truthy when it is neither \<open>null\<close> nor empty.\<close>

definition truthy_code :: "string option \<Rightarrow> bool" where
  "truthy_code c = (case c of None \<Rightarrow> False | Some s \<Rightarrow> s \<noteq> [])"

definition validateRouteRegions ::
  "geocoder option \<Rightarrow> string option \<Rightarrow> stored option \<Rightarrow> string \<Rightarrow> string \<Rightarrow> RouteValidation" where
  "validateRouteRegions maps vite_admin_enabled slot origin destination =
    (let originValidation = validateAddressRegion maps vite_admin_enabled slot origin;
         errors1 = (if \<not> AddressValidation.valid originValidation
                    then [''Origen: '' @ error_or_default (error originValidation)] else []);
         destinationValidation = validateAddressRegion maps vite_admin_enabled slot destination;
         errors2 = errors1 @
                   (if \<not> AddressValidation.valid destinationValidation
                    then [''Destino: '' @ error_or_default (error destinationValidation)] else []);
         errors3 =
           (if truthy_code (countryCode originValidation)
               \<and> truthy_code (countryCode destinationValidation) then
              (let enabledCodes = getEnabledRegions (getAdminConfig vite_admin_enabled slot) in
               errors2 @
               (if the (countryCode originValidation) \<notin> set enabledCodes
                then [''El origen debe estar en '' @ enabled_names enabledCodes] else []) @
               (if the (countryCode destinationValidation) \<notin> set enabledCodes
                then [''El destino debe estar en '' @ enabled_names enabledCodes] else []))
            else errors2)
     in \<lparr>valid = (errors3 = []), errors = errors3\<rparr>)"

subsection \<open>Toggling a region\<close>

text \<open>A thrown \<open>Error\<close> with its message.\<close>

datatype thrown = Error string

definition Unauthorized :: thrown where
  "Unauthorized = Error ''No tienes permisos de administrador''"

definition UnknownRegion :: "string \<Rightarrow> thrown" where
  "UnknownRegion regionCode =
    Error (''Regi'' @ [CHR 0xF3] @ ''n '' @ regionCode @ '' no encontrada'')"

text \<open>
  \<open>[...new Set(xs)]\<close>: a \<open>Set\<close> keeps the first occurrence of each element, in
  insertion order.
\<close>

definition Set_spread :: "string list \<Rightarrow> string list" where
  "Set_spread xs = fold (\<lambda>c acc. push_new acc c) xs []"

text \<open>
  \<open>JSON.stringify\<close> of an \<open>AdminConfig\<close> gives a text that \<open>JSON.parse\<close> reads back
  as an object with the same two properties.
\<close>

definition JSON_stringify :: "AdminConfig \<Rightarrow> stored" where
  "JSON_stringify config = Json (JObject (Some (isAdmin config)) (Some (enabledRegions config)))"

text \<open>
  \<open>toggleRegionForAdmin\<close> returns how the call ended (\<open>Inl\<close> a thrown error, \<open>Inr ()\<close>
  a normal return) and the storage slot after the call. \<open>!region\<close> holds only when the
  property read gives \<open>undefined\<close>.
\<close>

definition toggleRegionForAdmin ::
  "string option \<Rightarrow> string \<Rightarrow> bool \<Rightarrow> stored option \<Rightarrow> (thrown + unit) \<times> stored option" where
  "toggleRegionForAdmin vite_admin_enabled regionCode enable slot =
    (let adminConfig = getAdminConfig vite_admin_enabled slot in
     if \<not> isAdmin adminConfig then (Inl Unauthorized, slot)
     else if REGION_CONFIG_get regionCode = Undefined then (Inl (UnknownRegion regionCode), slot)
     else
       (let updatedEnabledRegions =
              (if enable then Set_spread (enabledRegions adminConfig @ [regionCode])
               else filter (\<lambda>c. c \<noteq> regionCode) (enabledRegions adminConfig));
            updatedConfig = adminConfig\<lparr>enabledRegions := updatedEnabledRegions\<rparr>
        in (Inr (), Some (JSON_stringify updatedConfig))))"

subsection \<open>Concrete inputs\<close>

definition admin_no_regions :: "stored option" where
  "admin_no_regions = Some (Json (JObject (Some True) (Some [])))"

definition admin_with_AR :: "stored option" where
  "admin_with_AR = Some (Json (JObject (Some True) (Some [''AR''])))"

definition not_admin_with_AR :: "stored option" where
  "not_admin_with_AR = Some (Json (JObject (Some False) (Some [''AR''])))"

definition chile_reply :: geocoder_reply where
  "chile_reply =
    (Some [\<lparr>address_components =
       [\<lparr>long_name = ''Santiago'', short_name = ''Santiago'', types = [''locality'', ''political'']\<rparr>,
        \<lparr>long_name = ''Chile'', short_name = ''CL'', types = [''country'', ''political'']\<rparr>]\<rparr>], OK)"

definition argentina_reply :: geocoder_reply where
  "argentina_reply =
    (Some [\<lparr>address_components =
       [\<lparr>long_name = ''Mendoza'', short_name = ''Mendoza'', types = [''locality'', ''political'']\<rparr>,
        \<lparr>long_name = ''Argentina'', short_name = ''AR'', types = [''country'', ''political'']\<rparr>]\<rparr>], OK)"

definition sample_geocoder :: geocoder where
  "sample_geocoder address =
    (if address = ''Santiago, Chile'' then chile_reply
     else if address = ''Mendoza, Argentina'' then argentina_reply
     else (None, ZERO_RESULTS))"

section \<open>Properties\<close>

lemma default_enabled_eq: "default_enabled = [''CL'']"
  by (simp add: default_enabled_def Object_values_def REGION_CONFIG_def)

lemma set_fold_push_new: "set (fold (\<lambda>c acc. push_new acc c) xs acc0) = set acc0 \<union> set xs"
  by (induction xs arbitrary: acc0) (auto simp: push_new_def)

lemma distinct_push_new: "distinct acc \<Longrightarrow> distinct (push_new acc c)"
  by (simp add: push_new_def)

lemma distinct_fold_push_new:
  "distinct acc0 \<Longrightarrow> distinct (fold (\<lambda>c acc. push_new acc c) xs acc0)"
  by (induction xs arbitrary: acc0) (simp_all add: distinct_push_new)

lemma set_fold_push_if:
  "set (fold (\<lambda>r acc. if P r then push_new acc (f r) else acc) rs acc0)
     = set acc0 \<union> f ` {r \<in> set rs. P r}"
  by (induction rs arbitrary: acc0) (auto simp: push_new_def)

lemma distinct_fold_push_if:
  "distinct acc0 \<Longrightarrow> distinct (fold (\<lambda>r acc. if P r then push_new acc (f r) else acc) rs acc0)"
  by (induction rs arbitrary: acc0) (simp_all add: distinct_push_new)

text \<open>
  The resolved set: the default region, and for an administrator every code of the stored
  list. The second loop over the registry adds nothing that the first loop has not added.
\<close>

lemma set_getEnabledRegions:
  "set (getEnabledRegions cfg)
     = {''CL''} \<union> (if isAdmin cfg then set (enabledRegions cfg) else {})"
  by (auto simp: getEnabledRegions_def set_fold_push_if set_fold_push_new default_enabled_eq)

lemma getEnabledRegions_not_admin: "\<not> isAdmin cfg \<Longrightarrow> getEnabledRegions cfg = [''CL'']"
  by (simp add: getEnabledRegions_def default_enabled_eq)

lemma registry_adminOnly_not_CL:
  "map_of REGION_CONFIG c = Some r \<Longrightarrow> adminOnly r \<Longrightarrow> c \<noteq> ''CL''"
  by (auto simp: REGION_CONFIG_def split: if_splits)

lemma registry_default_is_CL:
  "map_of REGION_CONFIG c = Some r \<Longrightarrow> \<not> adminOnly r \<Longrightarrow> c = ''CL''"
  by (auto simp: REGION_CONFIG_def split: if_splits)

lemma CL_in_registry: "in_registry ''CL''"
  by (simp add: in_registry_def REGION_CONFIG_def)

lemma in_registry_defined: "in_registry c \<Longrightarrow> REGION_CONFIG_get c \<noteq> Undefined"
  by (auto simp: in_registry_def REGION_CONFIG_get_def)

subsection \<open>The resolver\<close>

text \<open>
  Claim C1, as the code has it: a code that is absent from the registry is in the list
  returned by \<open>getEnabledRegions\<close> exactly when \<open>isAdmin\<close> is true and the code is in the
  stored \<open>enabledRegions\<close> list. Such a code is left out only for a configuration that
  is not an administrator's.
\<close>

theorem unknown_code_enabled_iff:
  "\<not> in_registry c \<Longrightarrow>
     (c \<in> set (getEnabledRegions cfg)) = (isAdmin cfg \<and> c \<in> set (enabledRegions cfg))"
  using CL_in_registry by (auto simp: set_getEnabledRegions)

theorem unknown_code_enabled_iff_witness:
  "\<not> in_registry ''XX'' \<and>
   (''XX'' \<in> set (getEnabledRegions \<lparr>isAdmin = False, enabledRegions = [''XX'']\<rparr>))
     = (isAdmin \<lparr>isAdmin = False, enabledRegions = [''XX'']\<rparr>
        \<and> ''XX'' \<in> set (enabledRegions \<lparr>isAdmin = False, enabledRegions = [''XX'']\<rparr>))"
proof -
  have h: "\<not> in_registry ''XX''"
    by (simp add: in_registry_def REGION_CONFIG_def)
  show ?thesis
    using h unknown_code_enabled_iff [OF h, of "\<lparr>isAdmin = False, enabledRegions = [''XX'']\<rparr>"]
    by simp
qed

text \<open>
  For an administrator whose stored list holds the unregistered code \<open>XX\<close>, the resolver
  returns \<open>XX\<close>: the first loop of the administrator branch pushes every stored code.
\<close>

theorem unknown_code_enabled_counterexample:
  "\<not> in_registry ''XX''
   \<and> ''XX'' \<in> set (enabledRegions \<lparr>isAdmin = True, enabledRegions = [''XX'']\<rparr>)
   \<and> getEnabledRegions \<lparr>isAdmin = True, enabledRegions = [''XX'']\<rparr> = [''CL'', ''XX'']"
  by (simp add: in_registry_def REGION_CONFIG_def getEnabledRegions_def default_enabled_eq
      push_new_def Object_values_def)

text \<open>
  Claim C5: for every registry code with \<open>adminOnly = true\<close> and every administrator
  configuration, the code is in the list returned by \<open>getEnabledRegions\<close> if and only if
  \<open>isAdmin\<close> is true and the code is a member of the stored \<open>enabledRegions\<close> list.
\<close>

theorem adminOnly_enabled_iff:
  "map_of REGION_CONFIG c = Some r \<Longrightarrow> adminOnly r \<Longrightarrow>
     (c \<in> set (getEnabledRegions cfg)) = (isAdmin cfg \<and> c \<in> set (enabledRegions cfg))"
  using registry_adminOnly_not_CL [of c r] by (auto simp: set_getEnabledRegions)

theorem adminOnly_enabled_iff_witness:
  "map_of REGION_CONFIG ''AR''
     = Some \<lparr>code = ''AR'', name = ''Argentina'', enabled = False, adminOnly = True\<rparr>
   \<and> adminOnly \<lparr>code = ''AR'', name = ''Argentina'', enabled = False, adminOnly = True\<rparr>
   \<and> ''AR'' \<in> set (getEnabledRegions \<lparr>isAdmin = True, enabledRegions = [''PE'', ''AR'']\<rparr>)
   \<and> ''AR'' \<notin> set (getEnabledRegions \<lparr>isAdmin = False, enabledRegions = [''PE'', ''AR'']\<rparr>)"
proof -
  have m: "map_of REGION_CONFIG ''AR''
     = Some \<lparr>code = ''AR'', name = ''Argentina'', enabled = False, adminOnly = True\<rparr>"
    by (simp add: REGION_CONFIG_def)
  have a: "adminOnly \<lparr>code = ''AR'', name = ''Argentina'', enabled = False, adminOnly = True\<rparr>"
    by simp
  show ?thesis
    using m adminOnly_enabled_iff [OF m a, of "\<lparr>isAdmin = True, enabledRegions = [''PE'', ''AR'']\<rparr>"]
      adminOnly_enabled_iff [OF m a, of "\<lparr>isAdmin = False, enabledRegions = [''PE'', ''AR'']\<rparr>"]
    by simp
qed

text \<open>
  Claim C6: for every registry code with \<open>adminOnly = false\<close> and every administrator
  configuration, whatever its \<open>isAdmin\<close> flag and its stored \<open>enabledRegions\<close> list, the
  list returned by \<open>getEnabledRegions\<close> includes that code.
\<close>

theorem default_region_always_enabled:
  "map_of REGION_CONFIG c = Some r \<Longrightarrow> \<not> adminOnly r \<Longrightarrow> c \<in> set (getEnabledRegions cfg)"
  using registry_default_is_CL [of c r] by (simp add: set_getEnabledRegions)

theorem default_region_always_enabled_witness:
  "map_of REGION_CONFIG ''CL''
     = Some \<lparr>code = ''CL'', name = ''Chile'', enabled = True, adminOnly = False\<rparr>
   \<and> \<not> adminOnly \<lparr>code = ''CL'', name = ''Chile'', enabled = True, adminOnly = False\<rparr>
   \<and> ''CL'' \<in> set (getEnabledRegions \<lparr>isAdmin = True, enabledRegions = [''AR'']\<rparr>)"
proof -
  have m: "map_of REGION_CONFIG ''CL''
     = Some \<lparr>code = ''CL'', name = ''Chile'', enabled = True, adminOnly = False\<rparr>"
    by (simp add: REGION_CONFIG_def)
  have a: "\<not> adminOnly \<lparr>code = ''CL'', name = ''Chile'', enabled = True, adminOnly = False\<rparr>"
    by simp
  show ?thesis
    using m default_region_always_enabled [OF m a, of "\<lparr>isAdmin = True, enabledRegions = [''AR'']\<rparr>"]
    by simp
qed

text \<open>
  Claim C10: for every administrator configuration, also one whose stored
  \<open>enabledRegions\<close> list repeats a code, the list returned by \<open>getEnabledRegions\<close> holds
  each region code at most once.
\<close>

theorem getEnabledRegions_distinct: "distinct (getEnabledRegions cfg)"
  by (simp add: getEnabledRegions_def distinct_fold_push_if distinct_fold_push_new
      default_enabled_eq)

subsection \<open>Reading the persisted configuration\<close>

text \<open>
  Claim C7, as the code has it: for every non-empty stored text that \<open>JSON.parse\<close>
  rejects, and for every stored text that parses to \<open>null\<close> or to a value without the
  two properties, \<open>getAdminConfig\<close> returns \<open>{isAdmin: false, enabledRegions: []}\<close>; no
  fault leaves the function. An empty stored text is falsy, so it is treated as an
  absent key: \<open>isAdmin\<close> then comes from \<open>VITE_ADMIN_ENABLED\<close>, and \<open>enabledRegions\<close> is
  empty.
\<close>

theorem malformed_admin_json:
  "s \<noteq> [] \<Longrightarrow>
     getAdminConfig vite (Some (NotJson s)) = \<lparr>isAdmin = False, enabledRegions = []\<rparr>
   \<and> getAdminConfig vite (Some (Json JNull)) = \<lparr>isAdmin = False, enabledRegions = []\<rparr>
   \<and> getAdminConfig vite (Some (Json JOther)) = \<lparr>isAdmin = False, enabledRegions = []\<rparr>
   \<and> getAdminConfig vite (Some (Json (JObject None None)))
        = \<lparr>isAdmin = False, enabledRegions = []\<rparr>
   \<and> getAdminConfig vite (Some (NotJson []))
        = \<lparr>isAdmin = (vite = Some ''true''), enabledRegions = []\<rparr>"
  by (simp add: getAdminConfig_def)

theorem malformed_admin_json_witness:
  "''{oops'' \<noteq> []
   \<and> getAdminConfig (Some ''true'') (Some (NotJson ''{oops''))
       = \<lparr>isAdmin = False, enabledRegions = []\<rparr>
   \<and> getAdminConfig (Some ''true'') (Some (Json JNull))
       = \<lparr>isAdmin = False, enabledRegions = []\<rparr>"
  using malformed_admin_json [of "''{oops''" "Some ''true''"] by simp

text \<open>
  The empty text is not valid JSON, and with \<open>VITE_ADMIN_ENABLED\<close> set to \<open>true\<close> the
  configuration read from it is an administrator's.
\<close>

theorem malformed_admin_json_counterexample:
  "parse_admin (NotJson []) = Inl SyntaxError
   \<and> getAdminConfig (Some ''true'') (Some (NotJson [])) = \<lparr>isAdmin = True, enabledRegions = []\<rparr>
   \<and> getAdminConfig (Some ''true'') (Some (NotJson []))
       \<noteq> \<lparr>isAdmin = False, enabledRegions = []\<rparr>"
  by (simp add: getAdminConfig_def)

lemma getAdminConfig_stringify: "getAdminConfig vite (Some (JSON_stringify cfg)) = cfg"
  by (simp add: getAdminConfig_def JSON_stringify_def)

subsection \<open>Validating addresses and routes\<close>

text \<open>
  Claim C9: for every address, when the mapping engine is not loaded,
  \<open>validateAddressRegion\<close> returns a result with \<open>valid = false\<close>, no country code and a
  non-empty error message; it returns, it does not throw.
\<close>

theorem maps_not_loaded:
  "validateAddressRegion None vite slot address
     = \<lparr>AddressValidation.valid = False, countryCode = None, error = Some msg_not_loaded\<rparr>
   \<and> msg_not_loaded \<noteq> []"
  by (simp add: validateAddressRegion_def msg_not_loaded_def)

lemma enabled_names_CL: "enabled_names [''CL''] = ''Chile''"
  by (simp add: enabled_names_def region_name_or_code_def REGION_CONFIG_get_def REGION_CONFIG_def)

lemma validateAddressRegion_country:
  assumes "country_component (geocode a) = Some cmp" and "short_name cmp \<noteq> []"
  shows "validateAddressRegion (Some geocode) vite slot a =
    (if short_name cmp \<in> set (getEnabledRegions (getAdminConfig vite slot)) then
       \<lparr>AddressValidation.valid = True, countryCode = Some (short_name cmp), error = None\<rparr>
     else
       \<lparr>AddressValidation.valid = False, countryCode = Some (short_name cmp),
        error = Some (msg_outside (getEnabledRegions (getAdminConfig vite slot))
          (if long_name cmp \<noteq> [] then long_name cmp else short_name cmp))\<rparr>)"
  using assms
  by (auto simp: validateAddressRegion_def country_component_def Let_def split: option.splits)

text \<open>
  Claim C2, as the code has it: under a configuration that is not an administrator's
  (only \<open>CL\<close> enabled), when the origin geocodes to the country code \<open>CL\<close> and the
  destination to \<open>AR\<close>, \<open>validateRouteRegions\<close> returns \<open>valid = false\<close> and exactly two
  error entries, both about the destination: the message of the destination's own
  validation behind the prefix \<open>Destino: \<close>, and the message of the second check of the
  resolved codes, \<open>El destino debe estar en Chile\<close>.
\<close>

theorem route_CL_to_AR:
  assumes "country_component (geocode origin) = Some oc" and "short_name oc = ''CL''"
    and "country_component (geocode destination) = Some dc" and "short_name dc = ''AR''"
    and "\<not> isAdmin (getAdminConfig vite slot)"
  shows "validateRouteRegions (Some geocode) vite slot origin destination =
    \<lparr>valid = False,
     errors =
       [''Destino: Las rutas fuera de Chile no est'' @ [CHR 0xE1]
          @ ''n permitidas. Contacta a un administrador para habilitar ''
          @ (if long_name dc \<noteq> [] then long_name dc else ''AR'') @ ''.'',
        ''El destino debe estar en Chile'']\<rparr>"
proof -
  have en: "getEnabledRegions (getAdminConfig vite slot) = [''CL'']"
    using assms(5) by (rule getEnabledRegions_not_admin)
  have o: "validateAddressRegion (Some geocode) vite slot origin =
      \<lparr>AddressValidation.valid = True, countryCode = Some ''CL'', error = None\<rparr>"
    using validateAddressRegion_country
      [where geocode = geocode and a = origin and cmp = oc and vite = vite and slot = slot]
      assms(1) assms(2) en
    by simp
  have d: "validateAddressRegion (Some geocode) vite slot destination =
      \<lparr>AddressValidation.valid = False, countryCode = Some ''AR'',
       error = Some (msg_outside [''CL''] (if long_name dc \<noteq> [] then long_name dc else ''AR''))\<rparr>"
    using validateAddressRegion_country
      [where geocode = geocode and a = destination and cmp = dc and vite = vite and slot = slot]
      assms(3) assms(4) en
    by simp
  show ?thesis
    by (simp add: validateRouteRegions_def o d en Let_def truthy_code_def error_or_default_def
        msg_outside_def enabled_names_CL)
qed

theorem route_CL_to_AR_witness:
  "country_component (sample_geocoder ''Santiago, Chile'')
      = Some \<lparr>long_name = ''Chile'', short_name = ''CL'', types = [''country'', ''political'']\<rparr>
   \<and> country_component (sample_geocoder ''Mendoza, Argentina'')
      = Some \<lparr>long_name = ''Argentina'', short_name = ''AR'', types = [''country'', ''political'']\<rparr>
   \<and> \<not> isAdmin (getAdminConfig None None)
   \<and> validateRouteRegions (Some sample_geocoder) None None ''Santiago, Chile'' ''Mendoza, Argentina'' =
    \<lparr>valid = False,
     errors =
       [''Destino: Las rutas fuera de Chile no est'' @ [CHR 0xE1]
          @ ''n permitidas. Contacta a un administrador para habilitar Argentina.'',
        ''El destino debe estar en Chile'']\<rparr>"
proof -
  have 1: "country_component (sample_geocoder ''Santiago, Chile'')
      = Some \<lparr>long_name = ''Chile'', short_name = ''CL'', types = [''country'', ''political'']\<rparr>"
    by (simp add: country_component_def sample_geocoder_def chile_reply_def)
  have 2: "country_component (sample_geocoder ''Mendoza, Argentina'')
      = Some \<lparr>long_name = ''Argentina'', short_name = ''AR'', types = [''country'', ''political'']\<rparr>"
    by (simp add: country_component_def sample_geocoder_def argentina_reply_def)
  have 3: "\<not> isAdmin (getAdminConfig None None)"
    by (simp add: getAdminConfig_def)
  show ?thesis
    using 1 2 3 route_CL_to_AR [where geocode = sample_geocoder and origin = "''Santiago, Chile''"
      and destination = "''Mendoza, Argentina''" and vite = None and slot = None]
    by simp
qed

text \<open>
  With nothing in storage and no environment flag, an origin in Chile and a destination
  in Argentina give two error entries, not one.
\<close>

theorem route_CL_to_AR_counterexample:
  "map_option short_name (country_component (sample_geocoder ''Santiago, Chile'')) = Some ''CL''
   \<and> map_option short_name (country_component (sample_geocoder ''Mendoza, Argentina'')) = Some ''AR''
   \<and> getEnabledRegions (getAdminConfig None None) = [''CL'']
   \<and> length (errors (validateRouteRegions (Some sample_geocoder) None None
        ''Santiago, Chile'' ''Mendoza, Argentina'')) = 2"
  by (simp add: country_component_def sample_geocoder_def chile_reply_def argentina_reply_def
      getAdminConfig_def getEnabledRegions_def default_enabled_eq validateRouteRegions_def
      validateAddressRegion_def Let_def truthy_code_def)

subsection \<open>Toggling a region\<close>

text \<open>
  Claim C4: for every region code and every configuration with \<open>isAdmin = false\<close>,
  \<open>toggleRegionForAdmin\<close> throws the Unauthorized error and leaves the storage slot as
  it was.
\<close>

theorem toggle_unauthorized:
  "\<not> isAdmin (getAdminConfig vite slot) \<Longrightarrow>
     toggleRegionForAdmin vite regionCode enable slot = (Inl Unauthorized, slot)"
  by (simp add: toggleRegionForAdmin_def)

theorem toggle_unauthorized_witness:
  "\<not> isAdmin (getAdminConfig None not_admin_with_AR)
   \<and> toggleRegionForAdmin None ''PE'' True not_admin_with_AR
       = (Inl (Error ''No tienes permisos de administrador''), not_admin_with_AR)"
proof -
  have h: "\<not> isAdmin (getAdminConfig None not_admin_with_AR)"
    by (simp add: getAdminConfig_def not_admin_with_AR_def)
  show ?thesis
    using h toggle_unauthorized [OF h, of "''PE''" True] by (simp add: Unauthorized_def)
qed

text \<open>
  A code that is neither a key of the registry nor a property inherited from
  \<open>Object.prototype\<close> makes an administrator's call throw the UnknownRegion error
  before anything is written.
\<close>

lemma toggle_unknown_region:
  "isAdmin (getAdminConfig vite slot) \<Longrightarrow> REGION_CONFIG_get c = Undefined \<Longrightarrow>
     toggleRegionForAdmin vite c enable slot = (Inl (UnknownRegion c), slot)"
  by (simp add: toggleRegionForAdmin_def)

text \<open>
  Claim C8 says that for every region code absent from the registry an administrator's
  call to \<open>toggleRegionForAdmin\<close> throws the UnknownRegion error and writes nothing. The
  code \<open>toString\<close> is absent from the registry, yet \<open>REGION_CONFIG['toString']\<close> is the
  inherited function, which is truthy: the call returns normally and stores the code.
\<close>

theorem toggle_inherited_name:
  "\<not> in_registry ''toString''
   \<and> isAdmin (getAdminConfig None admin_no_regions)
   \<and> toggleRegionForAdmin None ''toString'' True admin_no_regions
       = (Inr (), Some (Json (JObject (Some True) (Some [''toString'']))))"
  by (simp add: toggleRegionForAdmin_def getAdminConfig_def admin_no_regions_def Let_def
        REGION_CONFIG_get_def REGION_CONFIG_def Object_prototype_def Set_spread_def push_new_def
        JSON_stringify_def in_registry_def)

lemma set_Set_spread: "set (Set_spread xs) = set xs"
  by (simp add: Set_spread_def set_fold_push_new)

lemma fold_push_new_distinct:
  "distinct xs \<Longrightarrow> set xs \<inter> set acc = {} \<Longrightarrow> fold (\<lambda>c acc. push_new acc c) xs acc = acc @ xs"
  by (induction xs arbitrary: acc) (auto simp: push_new_def)

lemma Set_spread_distinct: "distinct xs \<Longrightarrow> Set_spread xs = xs"
  by (simp add: Set_spread_def fold_push_new_distinct)

lemma toggle_enable:
  "isAdmin (getAdminConfig vite slot) \<Longrightarrow> REGION_CONFIG_get c \<noteq> Undefined \<Longrightarrow>
   toggleRegionForAdmin vite c True slot =
     (Inr (), Some (JSON_stringify ((getAdminConfig vite slot)
        \<lparr>enabledRegions := Set_spread (enabledRegions (getAdminConfig vite slot) @ [c])\<rparr>)))"
  by (simp add: toggleRegionForAdmin_def Let_def)

lemma toggle_disable:
  "isAdmin (getAdminConfig vite slot) \<Longrightarrow> REGION_CONFIG_get c \<noteq> Undefined \<Longrightarrow>
   toggleRegionForAdmin vite c False slot =
     (Inr (), Some (JSON_stringify ((getAdminConfig vite slot)
        \<lparr>enabledRegions := filter (\<lambda>x. x \<noteq> c) (enabledRegions (getAdminConfig vite slot))\<rparr>)))"
  by (simp add: toggleRegionForAdmin_def Let_def)

lemma toggle_on_off:
  assumes "isAdmin (getAdminConfig vite slot)" and "REGION_CONFIG_get c \<noteq> Undefined"
  shows "toggleRegionForAdmin vite c False (snd (toggleRegionForAdmin vite c True slot)) =
     (Inr (), Some (JSON_stringify ((getAdminConfig vite slot)
        \<lparr>enabledRegions :=
           filter (\<lambda>x. x \<noteq> c) (Set_spread (enabledRegions (getAdminConfig vite slot) @ [c]))\<rparr>)))"
  using assms by (simp add: toggle_enable toggle_disable getAdminConfig_stringify)

text \<open>
  Enabling and then disabling a code leaves the stored set without that code, whether it
  was there before or not.
\<close>

lemma toggle_on_off_set:
  assumes "isAdmin (getAdminConfig vite slot)" and "REGION_CONFIG_get c \<noteq> Undefined"
  shows "set (enabledRegions (getAdminConfig vite
            (snd (toggleRegionForAdmin vite c False (snd (toggleRegionForAdmin vite c True slot))))))
         = set (enabledRegions (getAdminConfig vite slot)) - {c}"
  using assms by (auto simp: toggle_on_off getAdminConfig_stringify set_Set_spread)

text \<open>When the stored list has no duplicates, the list itself comes back, in its order.\<close>

lemma toggle_on_off_list:
  assumes "isAdmin (getAdminConfig vite slot)" and "REGION_CONFIG_get c \<noteq> Undefined"
    and "distinct (enabledRegions (getAdminConfig vite slot))"
    and "c \<notin> set (enabledRegions (getAdminConfig vite slot))"
  shows "enabledRegions (getAdminConfig vite
            (snd (toggleRegionForAdmin vite c False (snd (toggleRegionForAdmin vite c True slot)))))
         = enabledRegions (getAdminConfig vite slot)"
proof -
  have "Set_spread (enabledRegions (getAdminConfig vite slot) @ [c])
      = enabledRegions (getAdminConfig vite slot) @ [c]"
    using assms(3,4) by (simp add: Set_spread_distinct)
  moreover have "filter (\<lambda>x. x \<noteq> c) (enabledRegions (getAdminConfig vite slot))
      = enabledRegions (getAdminConfig vite slot)"
    using assms(4) by (auto simp: filter_id_conv)
  ultimately show ?thesis
    using assms(1,2) by (simp add: toggle_on_off getAdminConfig_stringify)
qed

text \<open>
  Claim C3, as the code has it: for every region code in the registry that is not in the
  stored \<open>enabledRegions\<close> list, and every configuration with \<open>isAdmin = true\<close>,
  \<open>toggleRegionForAdmin(code, true)\<close> followed by \<open>toggleRegionForAdmin(code, false)\<close>
  both return normally and bring the stored \<open>enabledRegions\<close> set, and with it the
  resolved enabled set, back to what it was before the two calls.
\<close>

theorem toggle_round_trip:
  assumes "isAdmin (getAdminConfig vite slot)" and "in_registry c"
    and "c \<notin> set (enabledRegions (getAdminConfig vite slot))"
  shows "fst (toggleRegionForAdmin vite c True slot) = Inr ()
    \<and> fst (toggleRegionForAdmin vite c False (snd (toggleRegionForAdmin vite c True slot))) = Inr ()
    \<and> set (enabledRegions (getAdminConfig vite
          (snd (toggleRegionForAdmin vite c False (snd (toggleRegionForAdmin vite c True slot))))))
       = set (enabledRegions (getAdminConfig vite slot))
    \<and> set (getEnabledRegions (getAdminConfig vite
          (snd (toggleRegionForAdmin vite c False (snd (toggleRegionForAdmin vite c True slot))))))
       = set (getEnabledRegions (getAdminConfig vite slot))"
proof -
  have d: "REGION_CONFIG_get c \<noteq> Undefined"
    using assms(2) by (rule in_registry_defined)
  have s: "set (enabledRegions (getAdminConfig vite
          (snd (toggleRegionForAdmin vite c False (snd (toggleRegionForAdmin vite c True slot))))))
       = set (enabledRegions (getAdminConfig vite slot))"
    using toggle_on_off_set [OF assms(1) d] assms(3) by simp
  have a: "isAdmin (getAdminConfig vite
          (snd (toggleRegionForAdmin vite c False (snd (toggleRegionForAdmin vite c True slot)))))"
    using assms(1) d by (simp add: toggle_on_off getAdminConfig_stringify)
  have f1: "fst (toggleRegionForAdmin vite c True slot) = Inr ()"
    using assms(1) d by (simp add: toggle_enable)
  have f2: "fst (toggleRegionForAdmin vite c False (snd (toggleRegionForAdmin vite c True slot))) = Inr ()"
    using toggle_on_off [OF assms(1) d] by simp
  have g: "set (getEnabledRegions (getAdminConfig vite
          (snd (toggleRegionForAdmin vite c False (snd (toggleRegionForAdmin vite c True slot))))))
       = set (getEnabledRegions (getAdminConfig vite slot))"
    using assms(1) a s by (simp only: set_getEnabledRegions if_True)
  from f1 f2 s g show ?thesis
    by (intro conjI)
qed

theorem toggle_round_trip_witness:
  "isAdmin (getAdminConfig None admin_with_AR) \<and> in_registry ''PE''
   \<and> ''PE'' \<notin> set (enabledRegions (getAdminConfig None admin_with_AR))
   \<and> fst (toggleRegionForAdmin None ''PE'' True admin_with_AR) = Inr ()
   \<and> fst (toggleRegionForAdmin None ''PE'' False
        (snd (toggleRegionForAdmin None ''PE'' True admin_with_AR))) = Inr ()
   \<and> set (enabledRegions (getAdminConfig None
        (snd (toggleRegionForAdmin None ''PE'' False
          (snd (toggleRegionForAdmin None ''PE'' True admin_with_AR))))))
       = set [''AR'']
   \<and> set (getEnabledRegions (getAdminConfig None
        (snd (toggleRegionForAdmin None ''PE'' False
          (snd (toggleRegionForAdmin None ''PE'' True admin_with_AR))))))
       = set [''CL'', ''AR'']"
proof -
  have 1: "isAdmin (getAdminConfig None admin_with_AR)"
    by (simp add: getAdminConfig_def admin_with_AR_def)
  have 2: "in_registry ''PE''"
    by (simp add: in_registry_def REGION_CONFIG_def)
  have 3: "''PE'' \<notin> set (enabledRegions (getAdminConfig None admin_with_AR))"
    by (simp add: getAdminConfig_def admin_with_AR_def)
  have 4: "enabledRegions (getAdminConfig None admin_with_AR) = [''AR'']"
    by (simp add: getAdminConfig_def admin_with_AR_def)
  have 5: "getEnabledRegions (getAdminConfig None admin_with_AR) = [''CL'', ''AR'']"
    by (simp add: getAdminConfig_def admin_with_AR_def getEnabledRegions_def default_enabled_eq
        push_new_def Object_values_def REGION_CONFIG_def)
  show ?thesis
    using toggle_round_trip [OF 1 2 3] 1 2 3 by (simp only: 4 5 simp_thms)
qed

text \<open>
  When \<open>AR\<close> is already in the stored list, enabling it changes nothing and disabling it
  removes it: the stored list goes from \<open>[AR]\<close> to \<open>[]\<close> and the resolved list from
  \<open>[CL, AR]\<close> to \<open>[CL]\<close>.
\<close>

theorem toggle_round_trip_counterexample:
  "isAdmin (getAdminConfig None admin_with_AR) \<and> in_registry ''AR''
   \<and> enabledRegions (getAdminConfig None admin_with_AR) = [''AR'']
   \<and> getEnabledRegions (getAdminConfig None admin_with_AR) = [''CL'', ''AR'']
   \<and> fst (toggleRegionForAdmin None ''AR'' True admin_with_AR) = Inr ()
   \<and> fst (toggleRegionForAdmin None ''AR'' False
        (snd (toggleRegionForAdmin None ''AR'' True admin_with_AR))) = Inr ()
   \<and> enabledRegions (getAdminConfig None
        (snd (toggleRegionForAdmin None ''AR'' False
          (snd (toggleRegionForAdmin None ''AR'' True admin_with_AR)))))
       = []
   \<and> getEnabledRegions (getAdminConfig None
        (snd (toggleRegionForAdmin None ''AR'' False
          (snd (toggleRegionForAdmin None ''AR'' True admin_with_AR)))))
       = [''CL'']"
  by (simp add: toggleRegionForAdmin_def getAdminConfig_def admin_with_AR_def Let_def
        REGION_CONFIG_get_def REGION_CONFIG_def Set_spread_def push_new_def JSON_stringify_def
        in_registry_def getEnabledRegions_def default_enabled_eq Object_values_def)

end
